theory Spec2Isabelle
  imports Complex_Main "HOL-Library.AList" "HOL-Library.Word"
begin

section \<open>Values shared by the three modules\<close>

text \<open>
  Python exceptions are values. An exception carries its class and the text that
  \<^verbatim>\<open>str(e)\<close> returns. \<^verbatim>\<open>WebSocketDisconnect\<close> is kept apart from the other
  classes because \<^verbatim>\<open>websocket_endpoint\<close> has a handler of its own for it.
\<close>

datatype exn_class =
  RuntimeError | ValueError | TypeError | BinasciiError | ModuleNotFoundError
  | WebSocketDisconnect | OtherException

datatype exn = Exn exn_class string

fun str_exn :: "exn \<Rightarrow> string" where
  "str_exn (Exn c s) = s"

text \<open>
  A JSON scalar, as \<^verbatim>\<open>receive_json\<close> delivers it and \<^verbatim>\<open>send_json\<close> takes it.
  A message is a Python \<^verbatim>\<open>dict\<close> of such scalars, in insertion order.
  \<^verbatim>\<open>data.get(k)\<close> returns \<^verbatim>\<open>None\<close> for a missing key.
\<close>

datatype json = JNull | JBool bool | JInt int | JFloat real | JStr string

type_synonym message = "(string \<times> json) list"

definition dict_get :: "message \<Rightarrow> string \<Rightarrow> json" where
  "dict_get data k = (case map_of data k of None \<Rightarrow> JNull | Some v \<Rightarrow> v)"

type_synonym client_id = string
type_synonym session_id = string

text \<open>A \<^verbatim>\<open>WebSocket\<close> object is known by its identity, \<^verbatim>\<open>id(websocket)\<close>.\<close>

datatype websocket = WebSocket nat

text \<open>
  Everything outside the repository is a parameter: the transport
  (\<^verbatim>\<open>accept\<close>, \<^verbatim>\<open>send_json\<close>: \<open>None\<close> when the call returns, \<open>Some x\<close> when it raises
  \<open>x\<close>), \<^verbatim>\<open>base64.b64decode\<close>, Python's \<^verbatim>\<open>str()\<close> of a float, and the
  Whisper model (\<^verbatim>\<open>self.model.transcribe\<close> together with the iteration over the
  segment generator it returns, which is where faster-whisper does the work).
\<close>

type_synonym byte = "8 word"

record segment =
  seg_text :: string
  avg_logprob :: real

record env =
  accept :: "websocket \<Rightarrow> exn option"
  send_json :: "websocket \<Rightarrow> message \<Rightarrow> exn option"
  b64decode :: "json \<Rightarrow> exn + byte list"
  float_str :: "real \<Rightarrow> string"
  model_transcribe :: "real list \<Rightarrow> exn + segment list"

text \<open>Python's \<^verbatim>\<open>str()\<close> of a JSON scalar, as the f-strings of \<^verbatim>\<open>main.py\<close> apply it.\<close>

fun dec_digits :: "nat \<Rightarrow> string" where
  "dec_digits n =
     (if n < 10 then [''0123456789'' ! n]
      else dec_digits (n div 10) @ [''0123456789'' ! (n mod 10)])"

declare dec_digits.simps [simp del]

fun py_str :: "env \<Rightarrow> json \<Rightarrow> string" where
  "py_str e JNull = ''None''"
| "py_str e (JBool b) = (if b then ''True'' else ''False'')"
| "py_str e (JInt i) = (if i < 0 then ''-'' @ dec_digits (nat (- i)) else dec_digits (nat i))"
| "py_str e (JFloat r) = float_str e r"
| "py_str e (JStr s) = s"

section \<open>websocket_manager.py\<close>

text \<open>
  \<^verbatim>\<open>active_connections: Dict[str, WebSocket]\<close> is an association list in insertion
  order (a Python dict iterates in that order; assigning to a present key keeps its
  place, which is what \<open>AList.update\<close> does). \<^verbatim>\<open>session_clients: Dict[str, Set[str]]\<close>
  maps a session to the list of its members in the order in which the set iterates.
\<close>

record manager =
  active_connections :: "(client_id \<times> websocket) list"
  session_clients :: "(session_id \<times> client_id list) list"

definition WebSocketManager_init :: manager where
  "WebSocketManager_init = \<lparr>active_connections = [], session_clients = []\<rparr>"

text \<open>A successful send, as the client named sees it.\<close>

type_synonym delivery = "client_id \<times> message"

definition connect :: "env \<Rightarrow> manager \<Rightarrow> websocket \<Rightarrow> client_id \<Rightarrow> exn + manager" where
  "connect e m ws client_id =
     (case accept e ws of
        Some x \<Rightarrow> Inl x
      | None \<Rightarrow> Inr (m\<lparr>active_connections := AList.update client_id ws (active_connections m)\<rparr>))"

definition disconnect :: "manager \<Rightarrow> client_id \<Rightarrow> manager" where
  "disconnect m client_id =
     \<lparr>active_connections =
        (if client_id \<in> set (map fst (active_connections m))
         then AList.delete client_id (active_connections m)
         else active_connections m),
      session_clients =
        map (\<lambda>(sid, clients).
               (sid, if client_id \<in> set clients then removeAll client_id clients else clients))
            (session_clients m)\<rparr>"

definition send_to_client :: "env \<Rightarrow> manager \<Rightarrow> client_id \<Rightarrow> message \<Rightarrow> manager \<times> delivery list" where
  "send_to_client e m client_id msg =
     (case map_of (active_connections m) client_id of
        None \<Rightarrow> (m, [])
      | Some ws \<Rightarrow>
          (case send_json e ws msg of
             None \<Rightarrow> (m, [(client_id, msg)])
           | Some x \<Rightarrow> (disconnect m client_id, [])))"

text \<open>
  The sweep of \<^verbatim>\<open>broadcast\<close>: the loop over \<^verbatim>\<open>active_connections.items()\<close>, with
  \<^verbatim>\<open>disconnected_clients\<close> and the deliveries made so far as accumulators.
\<close>

fun broadcast_loop ::
  "env \<Rightarrow> message \<Rightarrow> (client_id \<times> websocket) list \<Rightarrow> client_id list \<Rightarrow> delivery list
     \<Rightarrow> client_id list \<times> delivery list" where
  "broadcast_loop e msg [] disconnected_clients sent = (disconnected_clients, sent)"
| "broadcast_loop e msg ((client_id, ws) # rest) disconnected_clients sent =
     (case send_json e ws msg of
        None \<Rightarrow> broadcast_loop e msg rest disconnected_clients (sent @ [(client_id, msg)])
      | Some x \<Rightarrow> broadcast_loop e msg rest (disconnected_clients @ [client_id]) sent)"

definition broadcast :: "env \<Rightarrow> manager \<Rightarrow> message \<Rightarrow> manager \<times> delivery list" where
  "broadcast e m msg =
     (case broadcast_loop e msg (active_connections m) [] [] of
        (disconnected_clients, sent) \<Rightarrow>
          (fold (\<lambda>client_id m'. disconnect m' client_id) disconnected_clients m, sent))"

text \<open>
  \<^verbatim>\<open>for client_id in self.session_clients[session_id]\<close> iterates the live set. A
  CPython set iterator remembers the size of the set when it is created and compares
  it with the current size at every \<^verbatim>\<open>next\<close>, the last one (which would end the loop)
  included; when they differ it raises
  \<^verbatim>\<open>RuntimeError("Set changed size during iteration")\<close>. In this loop the only
  change to the set is the removal of the member just visited (\<^verbatim>\<open>send_to_client\<close>
  calling \<^verbatim>\<open>disconnect\<close>), so as long as the sizes agree the members still to visit
  are the rest of the list the loop started with.
\<close>

definition session_size :: "manager \<Rightarrow> session_id \<Rightarrow> nat" where
  "session_size m session_id =
     (case map_of (session_clients m) session_id of None \<Rightarrow> 0 | Some clients \<Rightarrow> length clients)"

definition members :: "manager \<Rightarrow> session_id \<Rightarrow> client_id set" where
  "members m session_id =
     (case map_of (session_clients m) session_id of None \<Rightarrow> {} | Some clients \<Rightarrow> set clients)"

definition set_changed_size :: exn where
  "set_changed_size = Exn RuntimeError ''Set changed size during iteration''"

fun session_loop ::
  "env \<Rightarrow> session_id \<Rightarrow> message \<Rightarrow> nat \<Rightarrow> client_id list \<Rightarrow> manager \<Rightarrow> delivery list
     \<Rightarrow> exn option \<times> manager \<times> delivery list" where
  "session_loop e session_id msg used [] m sent =
     (if session_size m session_id \<noteq> used then (Some set_changed_size, m, sent)
      else (None, m, sent))"
| "session_loop e session_id msg used (client_id # rest) m sent =
     (if session_size m session_id \<noteq> used then (Some set_changed_size, m, sent)
      else (case send_to_client e m client_id msg of
              (m', ds) \<Rightarrow> session_loop e session_id msg used rest m' (sent @ ds)))"

definition broadcast_to_session ::
  "env \<Rightarrow> manager \<Rightarrow> session_id \<Rightarrow> message \<Rightarrow> exn option \<times> manager \<times> delivery list" where
  "broadcast_to_session e m session_id msg =
     (case map_of (session_clients m) session_id of
        None \<Rightarrow> (None, m, [])
      | Some clients \<Rightarrow> session_loop e session_id msg (length clients) clients m [])"

definition set_add :: "client_id \<Rightarrow> client_id list \<Rightarrow> client_id list" where
  "set_add client_id clients = (if client_id \<in> set clients then clients else clients @ [client_id])"

definition register_session_client :: "manager \<Rightarrow> session_id \<Rightarrow> client_id \<Rightarrow> manager" where
  "register_session_client m session_id client_id =
     (let sc = (if map_of (session_clients m) session_id = None
                then AList.update session_id [] (session_clients m)
                else session_clients m)
      in m\<lparr>session_clients :=
             AList.update session_id
               (set_add client_id (case map_of sc session_id of None \<Rightarrow> [] | Some clients \<Rightarrow> clients))
               sc\<rparr>)"

definition get_active_count :: "manager \<Rightarrow> nat" where
  "get_active_count m = length (active_connections m)"

definition get_session_client_count :: "manager \<Rightarrow> session_id \<Rightarrow> nat" where
  "get_session_client_count m session_id =
     (case map_of (session_clients m) session_id of
        Some clients \<Rightarrow> length clients
      | None \<Rightarrow> 0)"

section \<open>transcription.py\<close>

text \<open>
  \<^verbatim>\<open>TranscriptionService\<close>: the loaded model is the \<open>model_transcribe\<close> of the
  environment; the object itself carries the flag.
\<close>

record service =
  initialized :: bool

definition TranscriptionService_init :: service where
  "TranscriptionService_init = \<lparr>initialized = False\<rparr>"

definition is_initialized :: "service \<Rightarrow> bool" where
  "is_initialized svc = initialized svc"

text \<open>
  \<^verbatim>\<open>np.frombuffer(audio_bytes, dtype=np.int16)\<close> reads little-endian two's complement
  samples and raises \<^verbatim>\<open>ValueError\<close> when the buffer is not a whole number of them.
  A 16-bit integer divided by \<open>32768\<close> is exact in \<^verbatim>\<open>float32\<close>.
\<close>

fun frombuffer_int16 :: "byte list \<Rightarrow> int list" where
  "frombuffer_int16 (lo # hi # rest) =
     (let u = uint lo + 256 * uint hi in if u < 32768 then u else u - 65536)
       # frombuffer_int16 rest"
| "frombuffer_int16 _ = []"

definition bytes_to_audio_array :: "byte list \<Rightarrow> exn + real list" where
  "bytes_to_audio_array audio_bytes =
     (if length audio_bytes mod 2 \<noteq> 0
      then Inl (Exn ValueError ''buffer size must be a multiple of element size'')
      else Inr (map (\<lambda>s. real_of_int s / 32768) (frombuffer_int16 audio_bytes)))"

text \<open>
  \<^verbatim>\<open>str.strip()\<close> removes the characters for which \<^verbatim>\<open>str.isspace\<close> holds from both
  ends. A \<open>char\<close> is a code point below 256.
\<close>

definition py_isspace :: "char \<Rightarrow> bool" where
  "py_isspace c =
     (let n = (of_char c :: nat)
      in (9 \<le> n \<and> n \<le> 13) \<or> (28 \<le> n \<and> n \<le> 32) \<or> n = 133 \<or> n = 160)"

definition strip :: "string \<Rightarrow> string" where
  "strip s = rev (dropWhile py_isspace (rev (dropWhile py_isspace s)))"

text \<open>The loop \<^verbatim>\<open>for segment in segments\<close> with its three accumulators.\<close>

fun segments_loop :: "segment list \<Rightarrow> string \<Rightarrow> real \<Rightarrow> nat \<Rightarrow> string \<times> real \<times> nat" where
  "segments_loop [] transcript_text total_confidence segment_count =
     (transcript_text, total_confidence, segment_count)"
| "segments_loop (s # rest) transcript_text total_confidence segment_count =
     segments_loop rest (transcript_text @ seg_text s @ '' '')
       (total_confidence + avg_logprob s) (segment_count + 1)"

text \<open>
  The confidence is computed in IEEE doubles in the source and in the reals here:
  \<^verbatim>\<open>max(0.0, min(1.0, np.exp(avg_confidence)))\<close>.
\<close>

definition confidence_of :: "real \<Rightarrow> nat \<Rightarrow> real" where
  "confidence_of total_confidence segment_count =
     (if segment_count > 0
      then max 0 (min 1 (exp (total_confidence / real segment_count)))
      else 0)"

definition transcribe_chunk :: "env \<Rightarrow> service \<Rightarrow> byte list \<Rightarrow> exn + (string \<times> real)" where
  "transcribe_chunk e svc audio_bytes =
     (if \<not> initialized svc then Inl (Exn RuntimeError ''Transcription service not initialized'')
      else
        (case bytes_to_audio_array audio_bytes of
           Inl x \<Rightarrow> Inr ([], 0)
         | Inr audio_array \<Rightarrow>
             (case model_transcribe e audio_array of
                Inl x \<Rightarrow> Inr ([], 0)
              | Inr segments \<Rightarrow>
                  (case segments_loop segments [] 0 0 of
                     (transcript_text, total_confidence, segment_count) \<Rightarrow>
                       Inr (strip transcript_text,
                            confidence_of total_confidence segment_count)))))"

section \<open>main.py\<close>

text \<open>
  \<^verbatim>\<open>websocket_endpoint\<close> and \<^verbatim>\<open>handle_audio_chunk\<close> are modelled as they run
  when they are called, statement by statement. The imports at the top of the module
  (lines 11 to 24, among them \<^verbatim>\<open>app.auth\<close>, which the repository does not have
  either) are not statements of theirs.

  What a run of the handler does that the outside can see, in order: a message written
  to the socket, and the call of \<^verbatim>\<open>transcribe_chunk\<close>.
\<close>

datatype effect = Sent message | Transcribe "byte list"

definition ack_message :: "json \<Rightarrow> message" where
  "ack_message chunk_id = [(''type'', JStr ''ack''), (''chunkId'', chunk_id)]"

definition transcript_message :: "env \<Rightarrow> json \<Rightarrow> json \<Rightarrow> string \<Rightarrow> json \<Rightarrow> real \<Rightarrow> message" where
  "transcript_message e session_id chunk_id transcript_text timestamp confidence =
     [(''type'', JStr ''transcript''),
      (''id'', JStr (py_str e session_id @ ''_'' @ py_str e chunk_id)),
      (''sessionId'', session_id),
      (''text'', JStr transcript_text),
      (''timestamp'', timestamp),
      (''confidence'', JFloat confidence),
      (''language'', JStr ''en'')]"

definition error_message :: "json \<Rightarrow> exn \<Rightarrow> message" where
  "error_message chunk_id x =
     [(''type'', JStr ''error''), (''chunkId'', chunk_id), (''error'', JStr (str_exn x))]"

text \<open>
  The \<^verbatim>\<open>except Exception\<close> clause of the handler: one more send, outside any
  \<^verbatim>\<open>try\<close>, so an exception of that send leaves the handler.
\<close>

definition handle_audio_chunk_except ::
  "env \<Rightarrow> websocket \<Rightarrow> json \<Rightarrow> exn \<Rightarrow> effect list \<Rightarrow> exn option \<times> effect list" where
  "handle_audio_chunk_except e ws chunk_id x effs =
     (case send_json e ws (error_message chunk_id x) of
        Some y \<Rightarrow> (Some y, effs)
      | None \<Rightarrow> (None, effs @ [Sent (error_message chunk_id x)]))"

text \<open>
  The statements of \<^verbatim>\<open>handle_audio_chunk\<close> after its two imports (lines 143 to
  196), with the exception that leaves them, if any, and their effects.
\<close>

definition handle_audio_chunk_body ::
  "env \<Rightarrow> service \<Rightarrow> websocket \<Rightarrow> client_id \<Rightarrow> message \<Rightarrow> exn option \<times> effect list" where
  "handle_audio_chunk_body e svc ws client_id data =
     (let session_id = dict_get data ''sessionId'';
          chunk_id = dict_get data ''chunkId'';
          audio_data_b64 = dict_get data ''audioData'';
          timestamp = dict_get data ''timestamp''
      in case b64decode e audio_data_b64 of
           Inl x \<Rightarrow> (Some x, [])
         | Inr audio_bytes \<Rightarrow>
             (case send_json e ws (ack_message chunk_id) of
                Some x \<Rightarrow> (Some x, [])
              | None \<Rightarrow>
                  (let effs = [Sent (ack_message chunk_id), Transcribe audio_bytes]
                   in case transcribe_chunk e svc audio_bytes of
                        Inl x \<Rightarrow> handle_audio_chunk_except e ws chunk_id x effs
                      | Inr (transcript_text, confidence) \<Rightarrow>
                          if transcript_text \<noteq> []
                          then (case send_json e ws
                                       (transcript_message e session_id chunk_id
                                          transcript_text timestamp confidence) of
                                  Some x \<Rightarrow> handle_audio_chunk_except e ws chunk_id x effs
                                | None \<Rightarrow>
                                    (None, effs @ [Sent (transcript_message e session_id chunk_id
                                                     transcript_text timestamp confidence)]))
                          else (None, effs))))"

text \<open>
  The handler begins with \<^verbatim>\<open>import base64\<close>, a module of the standard library,
  and \<^verbatim>\<open>from app.queue import add_to_transcription_queue\<close> (line 141). The
  repository has no \<^verbatim>\<open>app/queue.py\<close>: the statement raises
  \<^verbatim>\<open>ModuleNotFoundError\<close> each time it is run, which is each time the handler is
  called, and the exception leaves the handler.
\<close>

definition app_queue_missing :: exn where
  "app_queue_missing =
     Exn ModuleNotFoundError (''No module named '' @ [CHR 0x27] @ ''app.queue'' @ [CHR 0x27])"

definition import_add_to_transcription_queue :: "exn option" where
  "import_add_to_transcription_queue = Some app_queue_missing"

definition handle_audio_chunk ::
  "env \<Rightarrow> service \<Rightarrow> websocket \<Rightarrow> client_id \<Rightarrow> message \<Rightarrow> exn option \<times> effect list" where
  "handle_audio_chunk e svc ws client_id data =
     (case import_add_to_transcription_queue of
        Some x \<Rightarrow> (Some x, [])
      | None \<Rightarrow> handle_audio_chunk_body e svc ws client_id data)"

text \<open>
  The receive loop of \<^verbatim>\<open>websocket_endpoint\<close> over the results of the successive
  \<^verbatim>\<open>receive_json\<close> calls (\<open>Inl\<close>: the call raised; a payload is a JSON object). When
  the list is used up the loop is suspended in \<^verbatim>\<open>receive_json\<close>: the connection is
  \<open>Active\<close>. Both \<^verbatim>\<open>except\<close> clauses call \<^verbatim>\<open>disconnect\<close> and the endpoint returns:
  the connection is \<open>Closed\<close>.
\<close>

datatype lifecycle = Active | Closed

definition pong_message :: message where
  "pong_message = [(''type'', JStr ''pong'')]"

fun receive_loop ::
  "env \<Rightarrow> service \<Rightarrow> websocket \<Rightarrow> client_id \<Rightarrow> (exn + message) list \<Rightarrow> manager \<Rightarrow> effect list
     \<Rightarrow> lifecycle \<times> manager \<times> effect list" where
  "receive_loop e svc ws client_id [] m out = (Active, m, out)"
| "receive_loop e svc ws client_id (Inl x # rest) m out = (Closed, disconnect m client_id, out)"
| "receive_loop e svc ws client_id (Inr data # rest) m out =
     (let message_type = dict_get data ''type''
      in if message_type = JStr ''audio_chunk''
         then (case handle_audio_chunk e svc ws client_id data of
                 (Some x, effs) \<Rightarrow> (Closed, disconnect m client_id, out @ effs)
               | (None, effs) \<Rightarrow> receive_loop e svc ws client_id rest m (out @ effs))
         else if message_type = JStr ''ping''
         then (case send_json e ws pong_message of
                 Some x \<Rightarrow> (Closed, disconnect m client_id, out)
               | None \<Rightarrow> receive_loop e svc ws client_id rest m (out @ [Sent pong_message]))
         else receive_loop e svc ws client_id rest m out)"

definition client_id_of :: "env \<Rightarrow> websocket \<Rightarrow> client_id" where
  "client_id_of e ws = (case ws of WebSocket n \<Rightarrow> ''client_'' @ py_str e (JInt (int n)))"

definition websocket_endpoint ::
  "env \<Rightarrow> service \<Rightarrow> manager \<Rightarrow> websocket \<Rightarrow> (exn + message) list
     \<Rightarrow> lifecycle \<times> manager \<times> effect list" where
  "websocket_endpoint e svc m ws events =
     (let client_id = client_id_of e ws
      in case connect e m ws client_id of
           Inl x \<Rightarrow> (Closed, disconnect m client_id, [])
         | Inr m' \<Rightarrow> receive_loop e svc ws client_id events m' [])"


section \<open>Example inputs\<close>

text \<open>
  The environments of the examples. \<open>b64decode_table\<close> gives what
  \<^verbatim>\<open>base64.b64decode\<close> returns on the three payloads the examples send: six zero
  bytes (three samples of silence), three zero bytes (not a whole number of samples),
  and the \<^verbatim>\<open>binascii.Error\<close> for the payload \<^verbatim>\<open>AAA\<close>, three characters without
  padding; the examples send no other payload. A socket in \<open>broken\<close> raises on every
  send. No example formats a float.
\<close>

definition b64decode_table :: "json \<Rightarrow> exn + byte list" where
  "b64decode_table j =
     (if j = JStr ''AAAAAAAA'' then Inr [0, 0, 0, 0, 0, 0]
      else if j = JStr ''AAAA'' then Inr [0, 0, 0]
      else Inl (Exn BinasciiError ''Incorrect padding''))"

definition example_env :: "websocket set \<Rightarrow> (real list \<Rightarrow> exn + segment list) \<Rightarrow> env" where
  "example_env broken engine =
     \<lparr>accept = (\<lambda>ws. None),
      send_json = (\<lambda>ws msg. if ws \<in> broken then Some (Exn WebSocketDisconnect []) else None),
      b64decode = b64decode_table,
      float_str = (\<lambda>r. []),
      model_transcribe = engine\<rparr>"

definition engine_silence :: "real list \<Rightarrow> exn + segment list" where
  "engine_silence audio_array = Inr []"

definition engine_hello :: "real list \<Rightarrow> exn + segment list" where
  "engine_hello audio_array = Inr [\<lparr>seg_text = '' hello'', avg_logprob = 0\<rparr>]"

definition engine_mumble :: "real list \<Rightarrow> exn + segment list" where
  "engine_mumble audio_array = Inr [\<lparr>seg_text = '' hm'', avg_logprob = - 5\<rparr>]"

definition engine_fault :: "real list \<Rightarrow> exn + segment list" where
  "engine_fault audio_array = Inl (Exn RuntimeError ''CUDA out of memory'')"

definition audio_chunk :: "int \<Rightarrow> string \<Rightarrow> message" where
  "audio_chunk chunk_id audio_data =
     [(''type'', JStr ''audio_chunk''), (''sessionId'', JStr ''s1''), (''chunkId'', JInt chunk_id),
      (''audioData'', JStr audio_data), (''timestamp'', JInt 1000)]"

definition hello_message :: message where
  "hello_message = [(''type'', JStr ''hello'')]"

definition two_in_session :: manager where
  "two_in_session =
     \<lparr>active_connections = [(''A'', WebSocket 1), (''B'', WebSocket 2)],
      session_clients = [(''s1'', [''A'', ''B''])]\<rparr>"


definition three_connected :: manager where
  "three_connected =
     \<lparr>active_connections = [(''A'', WebSocket 1), (''B'', WebSocket 2), (''C'', WebSocket 3)],
      session_clients = [(''s1'', [''A'', ''B''])]\<rparr>"


section \<open>Lemmas on the manager\<close>

lemma map_of_map_values:
  "map_of (map (\<lambda>(k, v). (k, f v)) xs) k = map_option f (map_of xs k)"
  by (induction xs) auto

lemma disconnect_not_active:
  "client_id \<notin> set (map fst (active_connections (disconnect m client_id)))"
  by (auto simp: disconnect_def AList.delete_eq)

lemma disconnect_session_entries:
  "(sid, clients) \<in> set (session_clients (disconnect m client_id)) \<Longrightarrow> client_id \<notin> set clients"
  by (auto simp: disconnect_def split: if_splits)

lemma members_disconnect: "members (disconnect m c) sid = members m sid - {c}"
  by (auto simp: members_def disconnect_def map_of_map_values split: option.splits if_splits)

lemma disconnect_absent:
  assumes "client_id \<notin> set (map fst (active_connections m))"
    and "\<forall>(sid, clients) \<in> set (session_clients m). client_id \<notin> set clients"
  shows "disconnect m client_id = m"
proof -
  have "map (\<lambda>(sid, clients).
               (sid, if client_id \<in> set clients then removeAll client_id clients else clients))
            (session_clients m) = session_clients m"
    using assms(2) by (intro map_idI) auto
  then show ?thesis using assms(1) by (simp add: disconnect_def)
qed

lemma active_disconnect:
  "active_connections (disconnect m c) = filter (\<lambda>(k, ws). k \<noteq> c) (active_connections m)"
proof (cases "c \<in> set (map fst (active_connections m))")
  case True
  then show ?thesis by (simp add: disconnect_def AList.delete_eq case_prod_unfold eq_commute)
next
  case False
  then have "filter (\<lambda>(k, ws). k \<noteq> c) (active_connections m) = active_connections m"
    by (intro filter_True) force
  with False show ?thesis by (simp add: disconnect_def)
qed

lemma fold_disconnect_active:
  "active_connections (fold (\<lambda>c m'. disconnect m' c) cs m) =
     filter (\<lambda>(k, ws). k \<notin> set cs) (active_connections m)"
  by (induction cs arbitrary: m) (auto simp: active_disconnect case_prod_unfold intro: filter_cong)

lemma fold_disconnect_members:
  "members (fold (\<lambda>c m'. disconnect m' c) cs m) sid = members m sid - set cs"
  by (induction cs arbitrary: m) (auto simp: members_disconnect)

text \<open>
  No operation of the manager puts a key twice into the registry: the property that
  makes \<open>active_connections\<close> a dict.
\<close>

lemma init_keys_distinct: "distinct (map fst (active_connections WebSocketManager_init))"
  by (simp add: WebSocketManager_init_def)

lemma connect_keys_distinct:
  "distinct (map fst (active_connections m)) \<Longrightarrow> connect e m ws c = Inr m' \<Longrightarrow>
     distinct (map fst (active_connections m'))"
  by (auto simp: connect_def distinct_update split: option.splits)

lemma disconnect_keys_distinct:
  "distinct (map fst (active_connections m)) \<Longrightarrow>
     distinct (map fst (active_connections (disconnect m c)))"
  by (simp add: active_disconnect distinct_map_filter)

lemma register_session_client_active:
  "active_connections (register_session_client m sid c) = active_connections m"
  by (simp add: register_session_client_def Let_def)

text \<open>The sweep visits every entry once and decides each on the outcome of its own send.\<close>

lemma broadcast_loop_eq:
  "broadcast_loop e msg xs d s =
     (d @ map fst (filter (\<lambda>(c, ws). send_json e ws msg \<noteq> None) xs),
      s @ map (\<lambda>(c, ws). (c, msg)) (filter (\<lambda>(c, ws). send_json e ws msg = None) xs))"
  by (induction xs arbitrary: d s) (auto split: option.splits)

lemma count_keys_distinct:
  "distinct (map fst xs) \<Longrightarrow> (c, ws) \<in> set xs \<Longrightarrow> P (c, ws) \<Longrightarrow>
     count_list (map fst (filter P xs)) c = 1"
proof (induction xs)
  case Nil
  then show ?case by simp
next
  case (Cons a xs)
  show ?case
  proof (cases "a = (c, ws)")
    case True
    with Cons.prems have "c \<notin> fst ` set (filter P xs)" by force
    then have "count_list (map fst (filter P xs)) c = 0" by (simp add: count_list_0_iff)
    with True Cons.prems show ?thesis by simp
  next
    case False
    with Cons.prems have in_xs: "(c, ws) \<in> set xs" by auto
    then have "c \<in> fst ` set xs" by force
    with Cons.prems have "fst a \<noteq> c" by auto
    with Cons in_xs show ?thesis by auto
  qed
qed

subsection \<open>The loop of broadcast_to_session\<close>

lemma session_loop_shrunk:
  "session_size m sid \<noteq> used \<Longrightarrow>
     session_loop e sid msg used todo m sent = (Some set_changed_size, m, sent)"
  by (cases todo) auto

lemma length_removeAll_less: "c \<in> set xs \<Longrightarrow> length (removeAll c xs) < length xs"
  by (induction xs) (auto simp: less_Suc_eq_le length_removeAll_less_eq)

lemma session_size_disconnect:
  "map_of (session_clients m) sid = Some clients \<Longrightarrow> c \<in> set clients \<Longrightarrow>
     session_size (disconnect m c) sid < session_size m sid"
  by (simp add: session_size_def disconnect_def map_of_map_values length_removeAll_less)

text \<open>
  One failed send to a registered member is enough: the member is removed from the set
  under iteration and the next step of the iterator raises.
\<close>

lemma session_loop_failed_send:
  assumes "map_of (session_clients m) sid = Some clients"
    and "set todo \<subseteq> set clients"
    and "c \<in> set todo"
    and "map_of (active_connections m) c = Some ws"
    and "send_json e ws msg = Some x"
  shows "fst (session_loop e sid msg used todo m sent) = Some set_changed_size"
  using assms(2,3)
proof (induction todo arbitrary: sent)
  case Nil
  then show ?case by simp
next
  case (Cons c' rest)
  show ?case
  proof (cases "session_size m sid = used")
    case False
    then show ?thesis by (simp add: session_loop_shrunk)
  next
    case True
    have continue: "fst (session_loop e sid msg used rest m sent') = Some set_changed_size"
      if "c' \<noteq> c" for sent'
    proof -
      from that Cons.prems have "set rest \<subseteq> set clients" "c \<in> set rest" by auto
      then show ?thesis by (rule Cons.IH)
    qed
    show ?thesis
    proof (cases "map_of (active_connections m) c'")
      case None
      with assms(4) have "c' \<noteq> c" by auto
      with None True continue show ?thesis by (simp add: send_to_client_def)
    next
      case (Some ws')
      show ?thesis
      proof (cases "send_json e ws' msg")
        case None
        with Some assms(4,5) have "c' \<noteq> c" by auto
        with None Some True continue show ?thesis by (simp add: send_to_client_def)
      next
        case (Some y)
        from Cons.prems assms(1) have "session_size (disconnect m c') sid < session_size m sid"
          by (intro session_size_disconnect) auto
        with True have "session_size (disconnect m c') sid \<noteq> used" by simp
        with Some \<open>map_of (active_connections m) c' = Some ws'\<close> True show ?thesis
          by (simp add: send_to_client_def session_loop_shrunk)
      qed
    qed
  qed
qed

lemma broadcast_to_session_failed_send:
  assumes "map_of (session_clients m) sid = Some clients"
    and "c \<in> set clients"
    and "map_of (active_connections m) c = Some ws"
    and "send_json e ws msg = Some x"
  shows "fst (broadcast_to_session e m sid msg) = Some set_changed_size"
  using assms session_loop_failed_send[OF assms(1) subset_refl assms(2,3,4)]
  by (simp add: broadcast_to_session_def)

text \<open>
  When no send fails the loop runs to its end on the unchanged manager and every
  registered member gets the message, in the order of the set.
\<close>

lemma session_loop_no_failure:
  assumes "\<forall>c \<in> set todo. \<forall>ws. map_of (active_connections m) c = Some ws \<longrightarrow> send_json e ws msg = None"
    and "session_size m sid = used"
  shows "session_loop e sid msg used todo m sent =
           (None, m, sent @ map (\<lambda>c. (c, msg))
                             (filter (\<lambda>c. map_of (active_connections m) c \<noteq> None) todo))"
  using assms(1)
proof (induction todo arbitrary: sent)
  case Nil
  then show ?case using assms(2) by simp
next
  case (Cons c rest)
  then have IH: "session_loop e sid msg used rest m sent' =
           (None, m, sent' @ map (\<lambda>c. (c, msg))
                              (filter (\<lambda>c. map_of (active_connections m) c \<noteq> None) rest))"
    for sent' by simp
  show ?case
  proof (cases "map_of (active_connections m) c")
    case None
    with assms(2) IH show ?thesis by (simp add: send_to_client_def)
  next
    case (Some ws)
    with Cons.prems have "send_json e ws msg = None" by simp
    with Some assms(2) IH show ?thesis by (simp add: send_to_client_def)
  qed
qed

lemma broadcast_to_session_no_failure:
  assumes "map_of (session_clients m) sid = Some clients"
    and "\<forall>c \<in> set clients. \<forall>ws. map_of (active_connections m) c = Some ws \<longrightarrow> send_json e ws msg = None"
  shows "broadcast_to_session e m sid msg =
           (None, m, map (\<lambda>c. (c, msg))
                       (filter (\<lambda>c. map_of (active_connections m) c \<noteq> None) clients))"
  using assms session_loop_no_failure[OF assms(2), of sid "length clients" "[]"]
  by (simp add: broadcast_to_session_def session_size_def)

section \<open>Lemmas on the transcription service\<close>

lemma segments_loop_eq:
  "segments_loop segs t tot n =
     (t @ concat (map (\<lambda>s. seg_text s @ '' '') segs),
      tot + sum_list (map avg_logprob segs), n + length segs)"
  by (induction segs arbitrary: t tot n) auto

lemma strip_Nil: "strip [] = []"
  by (simp add: strip_def)

lemma confidence_of_range: "0 \<le> confidence_of tot n \<and> confidence_of tot n \<le> 1"
  by (simp add: confidence_of_def)

lemma transcribe_chunk_range:
  "transcribe_chunk e svc b = Inr (t, c) \<Longrightarrow> 0 \<le> c \<and> c \<le> 1"
  using confidence_of_range
  by (auto simp: transcribe_chunk_def split: if_splits sum.splits prod.splits)

lemma transcribe_chunk_uninitialized:
  "\<not> initialized svc \<Longrightarrow>
     transcribe_chunk e svc audio_bytes = Inl (Exn RuntimeError ''Transcription service not initialized'')"
  by (simp add: transcribe_chunk_def)

lemma transcribe_chunk_initialized:
  "initialized svc \<Longrightarrow> \<exists>t c. transcribe_chunk e svc audio_bytes = Inr (t, c)"
  by (simp add: transcribe_chunk_def split: sum.splits prod.splits)

lemma transcribe_chunk_bad_buffer:
  "initialized svc \<Longrightarrow> bytes_to_audio_array audio_bytes = Inl x \<Longrightarrow>
     transcribe_chunk e svc audio_bytes = Inr ([], 0)"
  by (simp add: transcribe_chunk_def)

lemma transcribe_chunk_engine_fault:
  "initialized svc \<Longrightarrow> bytes_to_audio_array audio_bytes = Inr arr \<Longrightarrow>
     model_transcribe e arr = Inl x \<Longrightarrow> transcribe_chunk e svc audio_bytes = Inr ([], 0)"
  by (simp add: transcribe_chunk_def)

lemma transcribe_chunk_no_segments:
  "initialized svc \<Longrightarrow> bytes_to_audio_array audio_bytes = Inr arr \<Longrightarrow>
     model_transcribe e arr = Inr [] \<Longrightarrow> transcribe_chunk e svc audio_bytes = Inr ([], 0)"
  by (simp add: transcribe_chunk_def strip_Nil confidence_of_def)

lemma transcribe_chunk_Inl:
  "transcribe_chunk e svc audio_bytes = Inl x \<Longrightarrow>
     \<not> initialized svc \<and> x = Exn RuntimeError ''Transcription service not initialized''"
  by (auto simp: transcribe_chunk_def split: if_splits sum.splits prod.splits)

subsection \<open>Bounds on the exponential\<close>

text \<open>Seven terms of the series give \<open>e\<close> to three decimals; \<open>exp 5\<close> is its fifth power.\<close>

lemma exp_1_bounds: "2718 / 1000 < exp (1::real)" "exp (1::real) < 2719 / 1000"
proof -
  obtain t :: real where t: "\<bar>t\<bar> \<le> \<bar>1\<bar>"
    and e: "exp 1 = (\<Sum>m<7. (1 ^ m) / fact m) + (exp t / fact 7) * 1 ^ 7"
    using Maclaurin_exp_le[of 1 7] by blast
  have s: "(\<Sum>m<7. (1 ^ m) / fact m) = (1957 / 720 :: real)"
    by (simp add: eval_nat_numeral fact_reduce)
  have f: "fact 7 = (5040 :: real)" by (simp add: eval_nat_numeral)
  have "exp t \<le> exp 1" using t by simp
  also have "\<dots> \<le> 3" by (rule exp_le)
  finally have up: "exp t \<le> 3" .
  have lo: "0 < exp t" by simp
  from e have e': "exp 1 = 1957 / 720 + exp t / 5040" unfolding s f by simp
  show "2718 / 1000 < exp (1::real)" using lo unfolding e' by linarith
  show "exp (1::real) < 2719 / 1000" using up unfolding e' by linarith
qed

lemma exp_minus_5_bounds: "66 / 10000 < exp (- 5 :: real)" "exp (- 5 :: real) < 68 / 10000"
proof -
  have e5: "exp (5::real) = exp 1 ^ 5"
    using exp_of_nat_mult[of 5 "1::real"] by simp
  have "(2718 / 1000 :: real) ^ 5 < exp 1 ^ 5"
    by (rule power_strict_mono) (use exp_1_bounds in simp_all)
  then have lo: "(148 :: real) < exp 5" unfolding e5 by (simp add: power_divide)
  have "exp (1::real) ^ 5 < (2719 / 1000) ^ 5"
    by (rule power_strict_mono) (use exp_1_bounds in simp_all)
  then have up: "exp (5::real) < 149" unfolding e5 by (simp add: power_divide)
  have m: "exp (- 5 :: real) = 1 / exp 5" by (simp add: exp_minus inverse_eq_divide)
  have pos: "0 < exp (5::real)" by simp
  show "66 / 10000 < exp (- 5 :: real)" unfolding m using up pos
    by (simp add: field_simps)
  show "exp (- 5 :: real) < 68 / 10000" unfolding m using lo pos
    by (simp add: field_simps)
qed


section \<open>Claims on the manager\<close>

text \<open>
  C1. The claim: \<^verbatim>\<open>broadcast_to_session\<close> delivers to exactly the members of the session
  as they stood at the call, from a snapshot that a failed send (and the
  \<^verbatim>\<open>disconnect\<close> it triggers) cannot disturb. The code iterates the live set. With
  \<open>A\<close> and \<open>B\<close> in session \<open>s1\<close>: when the send to \<open>A\<close> fails, \<open>A\<close> is removed
  from the set under iteration, the loop ends in
  \<^verbatim>\<open>RuntimeError: Set changed size during iteration\<close> and \<open>B\<close> gets nothing; when
  the send to \<open>B\<close> fails, the last member visited, the call raises all the same.
\<close>

theorem broadcast_to_session_raises_after_failed_send:
  "broadcast_to_session (example_env {WebSocket 1} engine_silence) two_in_session ''s1'' hello_message
     = (Some (Exn RuntimeError ''Set changed size during iteration''),
        \<lparr>active_connections = [(''B'', WebSocket 2)], session_clients = [(''s1'', [''B''])]\<rparr>,
        [])
 \<and> broadcast_to_session (example_env {WebSocket 2} engine_silence) two_in_session ''s1'' hello_message
     = (Some (Exn RuntimeError ''Set changed size during iteration''),
        \<lparr>active_connections = [(''A'', WebSocket 1)], session_clients = [(''s1'', [''A''])]\<rparr>,
        [(''A'', hello_message)])"
  by (simp add: broadcast_to_session_def two_in_session_def example_env_def send_to_client_def
      disconnect_def session_size_def set_changed_size_def AList.delete_eq)

text \<open>
  C2. After \<^verbatim>\<open>disconnect(C)\<close>, in any state of the manager, \<open>C\<close> is not a key of
  \<^verbatim>\<open>active_connections\<close> and not a member of any session set; a second
  \<^verbatim>\<open>disconnect(C)\<close> changes nothing; and when \<open>C\<close> is absent (from the map and from
  every session set) \<^verbatim>\<open>disconnect(C)\<close> returns the state it was given.
\<close>

theorem disconnect_leaves_no_membership:
  "client_id \<notin> set (map fst (active_connections (disconnect m client_id)))
 \<and> (\<forall>(sid, clients) \<in> set (session_clients (disconnect m client_id)). client_id \<notin> set clients)
 \<and> (\<forall>sid. client_id \<notin> members (disconnect m client_id) sid)
 \<and> disconnect (disconnect m client_id) client_id = disconnect m client_id
 \<and> (client_id \<notin> set (map fst (active_connections m))
      \<and> (\<forall>(sid, clients) \<in> set (session_clients m). client_id \<notin> set clients)
      \<longrightarrow> disconnect m client_id = m)"
proof (intro conjI impI)
  show "client_id \<notin> set (map fst (active_connections (disconnect m client_id)))"
    by (rule disconnect_not_active)
  show entries: "\<forall>(sid, clients) \<in> set (session_clients (disconnect m client_id)). client_id \<notin> set clients"
    using disconnect_session_entries by fastforce
  show "\<forall>sid. client_id \<notin> members (disconnect m client_id) sid"
    by (simp add: members_disconnect)
  show "disconnect (disconnect m client_id) client_id = disconnect m client_id"
    using entries by (intro disconnect_absent disconnect_not_active)
  show "disconnect m client_id = m"
    if "client_id \<notin> set (map fst (active_connections m))
        \<and> (\<forall>(sid, clients) \<in> set (session_clients m). client_id \<notin> set clients)"
    using that by (intro disconnect_absent) simp_all
qed

text \<open>
  The theorem at work: \<open>C\<close> was never connected and is in no session, so
  \<^verbatim>\<open>disconnect("C")\<close> is a no-op; \<open>A\<close> is connected and in \<open>s1\<close>, and is gone from
  both afterwards.
\<close>

theorem disconnect_leaves_no_membership_witness:
  "''C'' \<notin> set (map fst (active_connections two_in_session))
 \<and> ''C'' \<notin> set [''A'', ''B'']
 \<and> disconnect two_in_session ''C'' = two_in_session
 \<and> disconnect two_in_session ''A''
     = \<lparr>active_connections = [(''B'', WebSocket 2)], session_clients = [(''s1'', [''B''])]\<rparr>
 \<and> ''A'' \<notin> members (disconnect two_in_session ''A'') ''s1''"
  using disconnect_leaves_no_membership[of "''C''" two_in_session]
    disconnect_leaves_no_membership[of "''A''" two_in_session]
  by (simp add: two_in_session_def disconnect_def AList.delete_eq)

text \<open>
  C6. The claim: \<^verbatim>\<open>connect\<close> with an identity already in the registry fails with
  \<^verbatim>\<open>DuplicateConnection\<close>. The code has no such check: \<open>A\<close> is connected on socket 1,
  and connecting socket 3 as \<open>A\<close> returns normally with the handle replaced.
\<close>

theorem connect_same_id_succeeds:
  "''A'' \<in> set (map fst (active_connections two_in_session))
 \<and> connect (example_env {} engine_silence) two_in_session (WebSocket 3) ''A''
     = Inr \<lparr>active_connections = [(''A'', WebSocket 3), (''B'', WebSocket 2)],
            session_clients = [(''s1'', [''A'', ''B''])]\<rparr>"
  by (simp add: connect_def two_in_session_def example_env_def)

text \<open>
  C6, as amended: when the handshake \<^verbatim>\<open>accept\<close> returns, \<^verbatim>\<open>connect\<close> returns
  normally whether or not the identity is present; afterwards the identity maps to the
  new socket, every other identity maps to what it did, the sessions are untouched, and
  for an identity that was present the keys and their order are the same.
\<close>

theorem connect_replaces_handle:
  assumes "accept e ws = None"
  shows "\<exists>m'. connect e m ws client_id = Inr m'
          \<and> map_of (active_connections m') client_id = Some ws
          \<and> (\<forall>c. c \<noteq> client_id \<longrightarrow> map_of (active_connections m') c = map_of (active_connections m) c)
          \<and> session_clients m' = session_clients m
          \<and> (client_id \<in> set (map fst (active_connections m)) \<longrightarrow>
               map fst (active_connections m') = map fst (active_connections m))"
  using assms by (simp add: connect_def update_conv' update_keys)

theorem connect_replaces_handle_witness:
  "accept (example_env {} engine_silence) (WebSocket 4) = None
 \<and> ''B'' \<in> set (map fst (active_connections two_in_session))
 \<and> (\<exists>m'. connect (example_env {} engine_silence) two_in_session (WebSocket 4) ''B'' = Inr m'
        \<and> map_of (active_connections m') ''B'' = Some (WebSocket 4)
        \<and> map_of (active_connections m') ''A'' = Some (WebSocket 1)
        \<and> map fst (active_connections m') = [''A'', ''B''])"
proof -
  have a: "accept (example_env {} engine_silence) (WebSocket 4) = None"
    by (simp add: example_env_def)
  have b: "''B'' \<in> set (map fst (active_connections two_in_session))"
    by (simp add: two_in_session_def)
  from connect_replaces_handle[OF a, of two_in_session "''B''"] b
  obtain m' where m': "connect (example_env {} engine_silence) two_in_session (WebSocket 4) ''B'' = Inr m'"
      "map_of (active_connections m') ''B'' = Some (WebSocket 4)"
      "\<forall>c. c \<noteq> ''B'' \<longrightarrow>
         map_of (active_connections m') c = map_of (active_connections two_in_session) c"
      "map fst (active_connections m') = map fst (active_connections two_in_session)"
    by blast
  from m'(3) have other: "map_of (active_connections m') ''A'' = Some (WebSocket 1)"
    by (simp add: two_in_session_def)
  from m'(4) have keys: "map fst (active_connections m') = [''A'', ''B'']"
    by (simp add: two_in_session_def)
  show ?thesis
    by (intro conjI exI[where x = m'] a b m'(1) m'(2) other keys)
qed

text \<open>
  C8. \<^verbatim>\<open>broadcast\<close> over a registry (a dict: no key twice): the message goes to every
  connection whose send does not fail, once each, in the order of the registry and
  whatever happened to the connections before it; the registry afterwards is the old one
  without the connections whose send failed, and those are in no session any more. The
  removals are made on the result of the completed sweep (\<open>broadcast_loop\<close> neither
  reads nor changes the manager).
\<close>

theorem broadcast_isolates_failures:
  assumes "distinct (map fst (active_connections m))"
  shows "case broadcast e m msg of (m', sent) \<Rightarrow>
      sent = map (\<lambda>(c, ws). (c, msg))
               (filter (\<lambda>(c, ws). send_json e ws msg = None) (active_connections m))
    \<and> active_connections m' = filter (\<lambda>(c, ws). send_json e ws msg = None) (active_connections m)
    \<and> (\<forall>(c, ws) \<in> set (active_connections m).
          if send_json e ws msg = None
          then count_list (map fst sent) c = 1 \<and> (c, ws) \<in> set (active_connections m')
          else c \<notin> set (map fst sent) \<and> c \<notin> set (map fst (active_connections m'))
               \<and> (\<forall>sid. c \<notin> members m' sid))"
proof -
  let ?ok = "\<lambda>(c, ws). send_json e ws msg = None"
  let ?ac = "active_connections m"
  let ?failed = "map fst (filter (\<lambda>(c, ws). send_json e ws msg \<noteq> None) ?ac)"
  let ?sent = "map (\<lambda>(c, ws). (c, msg)) (filter ?ok ?ac)"
  let ?m' = "fold (\<lambda>c m'. disconnect m' c) ?failed m"
  have b: "broadcast e m msg = (?m', ?sent)"
    by (simp add: broadcast_def broadcast_loop_eq)
  have keys: "(c, ws) \<in> set ?ac \<Longrightarrow> (c \<in> set ?failed) = (send_json e ws msg \<noteq> None)" for c ws
  proof
    assume "(c, ws) \<in> set ?ac" "c \<in> set ?failed"
    then obtain ws' where "(c, ws') \<in> set ?ac" "send_json e ws' msg \<noteq> None" by auto
    moreover from this \<open>(c, ws) \<in> set ?ac\<close> assms have "ws' = ws"
      by (meson eq_key_imp_eq_value)
    ultimately show "send_json e ws msg \<noteq> None" by simp
  next
    assume "(c, ws) \<in> set ?ac" "send_json e ws msg \<noteq> None"
    then show "c \<in> set ?failed" by force
  qed
  have ac': "active_connections ?m' = filter ?ok ?ac"
    unfolding fold_disconnect_active
  proof (rule filter_cong[OF refl], goal_cases)
    case (1 x)
    obtain c ws where x: "x = (c, ws)" by (cases x)
    with 1 keys[of c ws] show ?case by simp
  qed
  have fst_sent: "map fst ?sent = map fst (filter ?ok ?ac)"
    by (simp add: case_prod_unfold)
  have per: "\<forall>(c, ws) \<in> set ?ac.
          if send_json e ws msg = None
          then count_list (map fst ?sent) c = 1 \<and> (c, ws) \<in> set (active_connections ?m')
          else c \<notin> set (map fst ?sent) \<and> c \<notin> set (map fst (active_connections ?m'))
               \<and> (\<forall>sid. c \<notin> members ?m' sid)"
  proof (clarify, goal_cases)
    case (1 c ws)
    show ?case
    proof (cases "send_json e ws msg = None")
      case True
      with 1 assms have "count_list (map fst (filter ?ok ?ac)) c = 1"
        by (intro count_keys_distinct[where ws = ws]) auto
      with True 1 show ?thesis unfolding fst_sent ac' by simp
    next
      case False
      with 1 keys have f: "c \<in> set ?failed" by blast
      have "c \<notin> fst ` set (filter ?ok ?ac)"
      proof
        assume "c \<in> fst ` set (filter ?ok ?ac)"
        then obtain ws' where "(c, ws') \<in> set ?ac" "send_json e ws' msg = None" by auto
        with keys f show False by blast
      qed
      with False f show ?thesis unfolding fst_sent ac' fold_disconnect_members by simp
    qed
  qed
  show ?thesis unfolding b prod.case by (intro conjI refl ac' per)
qed

text \<open>
  Three connections, the send to the first fails: the other two get the message and
  stay, the first is removed from the registry and from its session.
\<close>

theorem broadcast_isolates_failures_witness:
  "distinct (map fst (active_connections three_connected))
 \<and> broadcast (example_env {WebSocket 1} engine_silence) three_connected hello_message
     = (\<lparr>active_connections = [(''B'', WebSocket 2), (''C'', WebSocket 3)],
         session_clients = [(''s1'', [''B''])]\<rparr>,
        [(''B'', hello_message), (''C'', hello_message)])"
  using broadcast_isolates_failures[where m = three_connected
      and e = "example_env {WebSocket 1} engine_silence" and msg = hello_message]
  by (simp add: three_connected_def broadcast_def example_env_def disconnect_def AList.delete_eq)


section \<open>Claims on the transcription service\<close>

text \<open>
  C5. With the service initialized, a buffer that converts and an engine that returns
  its segments, \<^verbatim>\<open>transcribe_chunk\<close> returns a confidence that, for at least one
  segment, is \<open>max 0 (min 1 (exp a))\<close> for the mean \<open>a\<close> of the segments'
  \<^verbatim>\<open>avg_logprob\<close>: \<open>1\<close> when the mean is \<open>0\<close>, within \<open>0.0001\<close> of \<open>0.0067\<close> when
  it is \<open>-5\<close>; for no segment it is \<open>0\<close>. Whatever \<^verbatim>\<open>transcribe_chunk\<close> returns, the
  confidence is in \<open>[0, 1]\<close>. (Reals stand for the doubles of the source.)
\<close>

theorem confidence_is_clamped_exp_of_mean:
  assumes "initialized svc"
    and "bytes_to_audio_array audio_bytes = Inr audio_array"
    and "model_transcribe e audio_array = Inr segments"
  shows "\<exists>transcript_text confidence.
           transcribe_chunk e svc audio_bytes = Inr (transcript_text, confidence)
         \<and> (segments \<noteq> [] \<longrightarrow>
              confidence = max 0 (min 1 (exp (sum_list (map avg_logprob segments) / real (length segments))))
            \<and> (sum_list (map avg_logprob segments) / real (length segments) = 0 \<longrightarrow> confidence = 1)
            \<and> (sum_list (map avg_logprob segments) / real (length segments) = - 5 \<longrightarrow>
                  \<bar>confidence - 67 / 10000\<bar> < 1 / 10000))
         \<and> (segments = [] \<longrightarrow> confidence = 0)
         \<and> 0 \<le> confidence \<and> confidence \<le> 1
         \<and> (\<forall>e' svc' b' t c. transcribe_chunk e' svc' b' = Inr (t, c) \<longrightarrow> 0 \<le> c \<and> c \<le> 1)"
proof -
  let ?mean = "sum_list (map avg_logprob segments) / real (length segments)"
  let ?c = "confidence_of (sum_list (map avg_logprob segments)) (length segments)"
  have tc: "transcribe_chunk e svc audio_bytes =
          Inr (strip (concat (map (\<lambda>s. seg_text s @ '' '') segments)), ?c)"
    using assms by (simp add: transcribe_chunk_def segments_loop_eq)
  have ne: "?c = max 0 (min 1 (exp ?mean))" if "segments \<noteq> []"
    using that by (simp add: confidence_of_def)
  have zero: "?c = 1" if "segments \<noteq> []" "?mean = 0"
    unfolding ne[OF that(1)] that(2) by simp
  have five: "\<bar>?c - 67 / 10000\<bar> < 1 / 10000" if "segments \<noteq> []" "?mean = - 5"
    unfolding ne[OF that(1)] that(2) using exp_minus_5_bounds by (simp add: max_def min_def abs_if)
  have empty: "?c = 0" if "segments = []"
    using that by (simp add: confidence_of_def)
  show ?thesis
    unfolding tc
    using ne zero five empty confidence_of_range transcribe_chunk_range by blast
qed

text \<open>
  Three samples of silence, one segment of log-probability \<open>- 5\<close>: the text is stripped
  and the confidence is \<open>exp (- 5)\<close>, which is about \<open>0.0067\<close>.
\<close>

theorem confidence_is_clamped_exp_of_mean_witness:
  "initialized \<lparr>initialized = True\<rparr>
 \<and> bytes_to_audio_array [0, 0, 0, 0, 0, 0] = Inr [0, 0, 0]
 \<and> model_transcribe (example_env {} engine_mumble) [0, 0, 0]
      = Inr [\<lparr>seg_text = '' hm'', avg_logprob = - 5\<rparr>]
 \<and> transcribe_chunk (example_env {} engine_mumble) \<lparr>initialized = True\<rparr> [0, 0, 0, 0, 0, 0]
      = Inr (''hm'', exp (- 5))
 \<and> \<bar>exp (- 5 :: real) - 67 / 10000\<bar> < 1 / 10000"
proof -
  have a: "initialized \<lparr>initialized = True\<rparr>" by simp
  have b: "bytes_to_audio_array [0, 0, 0, 0, 0, 0] = Inr [0, 0, 0]"
    by (simp add: bytes_to_audio_array_def)
  have c: "model_transcribe (example_env {} engine_mumble) [0, 0, 0]
             = Inr [\<lparr>seg_text = '' hm'', avg_logprob = - 5\<rparr>]"
    by (simp add: example_env_def engine_mumble_def)
  have d: "transcribe_chunk (example_env {} engine_mumble) \<lparr>initialized = True\<rparr> [0, 0, 0, 0, 0, 0]
             = Inr (''hm'', exp (- 5))"
    by (simp add: transcribe_chunk_def b c confidence_of_def strip_def py_isspace_def
        max_def min_def)
  from confidence_is_clamped_exp_of_mean[OF a b c] d
  have "\<bar>exp (- 5 :: real) - 67 / 10000\<bar> < 1 / 10000" by simp
  with a b c d show ?thesis by (intro conjI)
qed

text \<open>
  C10. An initialized service returns from \<^verbatim>\<open>transcribe_chunk\<close> for every buffer: a
  buffer of odd length (the \<^verbatim>\<open>ValueError\<close> of \<^verbatim>\<open>np.frombuffer\<close>) and an engine that
  raises both give \<open>('''', 0)\<close>, which is what a silent chunk (no segment) gives with
  the same buffer. The only exception that leaves \<^verbatim>\<open>transcribe_chunk\<close> is the
  \<^verbatim>\<open>RuntimeError\<close> of a service that is not initialized, and that one always does.
\<close>

theorem transcribe_chunk_only_raises_uninitialized:
  "(initialized svc \<longrightarrow> (\<exists>t c. transcribe_chunk e svc audio_bytes = Inr (t, c)))
 \<and> (initialized svc \<and> length audio_bytes mod 2 \<noteq> 0 \<longrightarrow>
        transcribe_chunk e svc audio_bytes = Inr ([], 0))
 \<and> (\<forall>arr x. initialized svc \<and> bytes_to_audio_array audio_bytes = Inr arr \<and> model_transcribe e arr = Inl x \<longrightarrow>
        transcribe_chunk e svc audio_bytes = Inr ([], 0)
      \<and> transcribe_chunk e svc audio_bytes
           = transcribe_chunk (e\<lparr>model_transcribe := engine_silence\<rparr>) svc audio_bytes)
 \<and> (\<forall>x. transcribe_chunk e svc audio_bytes = Inl x \<longrightarrow>
        \<not> initialized svc \<and> x = Exn RuntimeError ''Transcription service not initialized'')
 \<and> (\<not> initialized svc \<longrightarrow>
        transcribe_chunk e svc audio_bytes = Inl (Exn RuntimeError ''Transcription service not initialized''))"
proof (intro conjI allI impI)
  show "initialized svc \<Longrightarrow> \<exists>t c. transcribe_chunk e svc audio_bytes = Inr (t, c)"
    by (rule transcribe_chunk_initialized)
next
  assume "initialized svc \<and> length audio_bytes mod 2 \<noteq> 0"
  then show "transcribe_chunk e svc audio_bytes = Inr ([], 0)"
    by (intro transcribe_chunk_bad_buffer) (simp_all add: bytes_to_audio_array_def)
next
  fix arr x
  assume a: "initialized svc \<and> bytes_to_audio_array audio_bytes = Inr arr \<and> model_transcribe e arr = Inl x"
  then show f: "transcribe_chunk e svc audio_bytes = Inr ([], 0)"
    by (simp add: transcribe_chunk_engine_fault)
  from a have "transcribe_chunk (e\<lparr>model_transcribe := engine_silence\<rparr>) svc audio_bytes = Inr ([], 0)"
    by (intro transcribe_chunk_no_segments[where arr = arr]) (simp_all add: engine_silence_def)
  with f show "transcribe_chunk e svc audio_bytes
           = transcribe_chunk (e\<lparr>model_transcribe := engine_silence\<rparr>) svc audio_bytes" by simp
next
  fix x assume "transcribe_chunk e svc audio_bytes = Inl x"
  then show "\<not> initialized svc" "x = Exn RuntimeError ''Transcription service not initialized''"
    by (auto dest: transcribe_chunk_Inl)
next
  show "\<not> initialized svc \<Longrightarrow>
        transcribe_chunk e svc audio_bytes = Inl (Exn RuntimeError ''Transcription service not initialized'')"
    by (rule transcribe_chunk_uninitialized)
qed

theorem transcribe_chunk_only_raises_uninitialized_witness:
  "initialized \<lparr>initialized = True\<rparr> \<and> length [0, 0, 0 :: byte] mod 2 \<noteq> 0
 \<and> transcribe_chunk (example_env {} engine_hello) \<lparr>initialized = True\<rparr> [0, 0, 0] = Inr ([], 0)
 \<and> bytes_to_audio_array [0, 0, 0, 0, 0, 0] = Inr [0, 0, 0]
 \<and> model_transcribe (example_env {} engine_fault) [0, 0, 0] = Inl (Exn RuntimeError ''CUDA out of memory'')
 \<and> transcribe_chunk (example_env {} engine_fault) \<lparr>initialized = True\<rparr> [0, 0, 0, 0, 0, 0] = Inr ([], 0)
 \<and> \<not> initialized TranscriptionService_init
 \<and> transcribe_chunk (example_env {} engine_hello) TranscriptionService_init [0, 0, 0, 0, 0, 0]
      = Inl (Exn RuntimeError ''Transcription service not initialized'')"
proof -
  note odd_buffer = transcribe_chunk_only_raises_uninitialized[of "\<lparr>initialized = True\<rparr>"
      "example_env {} engine_hello" "[0, 0, 0]"]
  note fault = transcribe_chunk_only_raises_uninitialized[of "\<lparr>initialized = True\<rparr>"
      "example_env {} engine_fault" "[0, 0, 0, 0, 0, 0]"]
  note not_ready = transcribe_chunk_only_raises_uninitialized[of TranscriptionService_init
      "example_env {} engine_hello" "[0, 0, 0, 0, 0, 0]"]
  have a: "initialized \<lparr>initialized = True\<rparr>" by simp
  have b: "length [0, 0, 0 :: byte] mod 2 \<noteq> 0" by simp
  have c: "bytes_to_audio_array [0, 0, 0, 0, 0, 0] = Inr [0, 0, 0]"
    by (simp add: bytes_to_audio_array_def)
  have d: "model_transcribe (example_env {} engine_fault) [0, 0, 0]
             = Inl (Exn RuntimeError ''CUDA out of memory'')"
    by (simp add: example_env_def engine_fault_def)
  have e: "\<not> initialized TranscriptionService_init"
    by (simp add: TranscriptionService_init_def)
  have r1: "transcribe_chunk (example_env {} engine_hello) \<lparr>initialized = True\<rparr> [0, 0, 0] = Inr ([], 0)"
    using odd_buffer[THEN conjunct2, THEN conjunct1] a b by (rule mp[OF _ conjI])
  have r2: "transcribe_chunk (example_env {} engine_fault) \<lparr>initialized = True\<rparr> [0, 0, 0, 0, 0, 0]
              = Inr ([], 0)"
    using fault[THEN conjunct2, THEN conjunct2, THEN conjunct1, rule_format, of "[0, 0, 0]"
        "Exn RuntimeError ''CUDA out of memory''", THEN conjunct1] a c d
    by simp
  have r3: "transcribe_chunk (example_env {} engine_hello) TranscriptionService_init [0, 0, 0, 0, 0, 0]
      = Inl (Exn RuntimeError ''Transcription service not initialized'')"
    using not_ready[THEN conjunct2, THEN conjunct2, THEN conjunct2, THEN conjunct2] e by (rule mp)
  show ?thesis by (intro conjI a b c d e r1 r2 r3)
qed


section \<open>Lemmas on the chunk handler\<close>

text \<open>
  The import at the head of the handler raises on every call, whatever the message:
  the handler does nothing else, and the receive loop ends with the first
  \<^verbatim>\<open>audio_chunk\<close> message it reads.
\<close>

lemma handle_audio_chunk_raises:
  "handle_audio_chunk e svc ws client_id data = (Some app_queue_missing, [])"
  by (simp add: handle_audio_chunk_def import_add_to_transcription_queue_def)

lemma receive_loop_audio_chunk:
  "dict_get data ''type'' = JStr ''audio_chunk'' \<Longrightarrow>
     receive_loop e svc ws client_id (Inr data # rest) m out = (Closed, disconnect m client_id, out)"
  by (simp add: handle_audio_chunk_raises)

subsection \<open>The statements after the import\<close>

text \<open>
  What lines 143 to 196 of the handler do when they are run: the \<^verbatim>\<open>ack\<close> comes
  first, then the call of \<^verbatim>\<open>transcribe_chunk\<close>, then at most one more message.
\<close>

lemma body_ack_first:
  assumes "b64decode e (dict_get data ''audioData'') = Inr audio_bytes"
  shows "(send_json e ws (ack_message (dict_get data ''chunkId'')) = None \<longrightarrow>
           (\<exists>rest. snd (handle_audio_chunk_body e svc ws client_id data) =
                      Sent (ack_message (dict_get data ''chunkId'')) # Transcribe audio_bytes # rest
                  \<and> (rest = []
                     \<or> (\<exists>t c. rest = [Sent (transcript_message e (dict_get data ''sessionId'')
                                           (dict_get data ''chunkId'') t (dict_get data ''timestamp'') c)])
                     \<or> (\<exists>x. rest = [Sent (error_message (dict_get data ''chunkId'') x)]))))
       \<and> (send_json e ws (ack_message (dict_get data ''chunkId'')) \<noteq> None \<longrightarrow>
            snd (handle_audio_chunk_body e svc ws client_id data) = [])"
  using assms
  by (auto simp: handle_audio_chunk_body_def handle_audio_chunk_except_def Let_def
           split: option.splits sum.splits prod.splits)

lemma body_decode_failure:
  "b64decode e (dict_get data ''audioData'') = Inl x \<Longrightarrow>
     handle_audio_chunk_body e svc ws client_id data = (Some x, [])"
  by (simp add: handle_audio_chunk_body_def Let_def)

lemma body_empty_text:
  assumes "b64decode e (dict_get data ''audioData'') = Inr audio_bytes"
    and "send_json e ws (ack_message (dict_get data ''chunkId'')) = None"
    and "transcribe_chunk e svc audio_bytes = Inr ([], confidence)"
  shows "handle_audio_chunk_body e svc ws client_id data =
           (None, [Sent (ack_message (dict_get data ''chunkId'')), Transcribe audio_bytes])"
  using assms by (simp add: handle_audio_chunk_body_def Let_def)

lemma body_transcription_raises:
  assumes "b64decode e (dict_get data ''audioData'') = Inr audio_bytes"
    and "\<forall>msg. send_json e ws msg = None"
    and "transcribe_chunk e svc audio_bytes = Inl x"
  shows "handle_audio_chunk_body e svc ws client_id data =
           (None, [Sent (ack_message (dict_get data ''chunkId'')), Transcribe audio_bytes,
                   Sent (error_message (dict_get data ''chunkId'') x)])"
  using assms by (simp add: handle_audio_chunk_body_def handle_audio_chunk_except_def Let_def)

section \<open>Claims on the chunk handler\<close>


text \<open>
  C4. The claim: a payload that does not decode gets a per-chunk \<^verbatim>\<open>error\<close> message
  and the connection stays open. The first message of a new connection carries the
  payload \<^verbatim>\<open>AAA\<close>: nothing is sent, the connection is unregistered and the endpoint
  returns; the chunk that follows is never read. The handler has left by its import
  already; and past the import \<^verbatim>\<open>base64.b64decode\<close> is called before the
  \<^verbatim>\<open>try\<close> (which is what turns a failed transcription into an \<^verbatim>\<open>error\<close>
  message), so that the \<^verbatim>\<open>binascii.Error\<close> leaves the handler as well.
\<close>

theorem malformed_payload_closes_connection:
  "websocket_endpoint (example_env {} engine_hello) \<lparr>initialized = True\<rparr> WebSocketManager_init
     (WebSocket 1) [Inr (audio_chunk 1 ''AAA''), Inr (audio_chunk 2 ''AAAAAAAA'')]
     = (Closed, \<lparr>active_connections = [], session_clients = []\<rparr>, [])
 \<and> handle_audio_chunk_body (example_env {} engine_hello) \<lparr>initialized = True\<rparr> (WebSocket 1)
       ''client_1'' (audio_chunk 1 ''AAA'')
     = (Some (Exn BinasciiError ''Incorrect padding''), [])"
  by (simp add: websocket_endpoint_def client_id_of_def connect_def disconnect_def
      WebSocketManager_init_def handle_audio_chunk_raises handle_audio_chunk_body_def
      example_env_def b64decode_table_def audio_chunk_def dict_get_def dec_digits.simps
      AList.delete_eq)



end
